theory Spec2Isabelle
  imports Main
begin

section \<open>Data model of the chat page\<close>

text \<open>
  The conversation engine is the React component \<^verbatim>\<open>ChatPage\<close> (second module of
  \<^verbatim>\<open>webui/src/components/Layout.tsx\<close>). Its \<^verbatim>\<open>useState\<close> and \<^verbatim>\<open>useRef\<close>
  cells become the fields of one state record, every handler and effect body becomes a
  function from state to state, the outcome of each awaited request is an argument of the
  handler that awaits it, and \<^verbatim>\<open>Date.now()\<close> is an argument as well.

  Record fields carry a prefix where several interfaces of the source share a field name
  (\<^verbatim>\<open>id\<close>, \<^verbatim>\<open>name\<close>, \<^verbatim>\<open>type\<close>, \<^verbatim>\<open>timestamp\<close>, \<^verbatim>\<open>message\<close>): \<open>c_\<close> for
  \<^verbatim>\<open>Contact\<close>, \<open>l_\<close> for an entry of the message log, \<open>m_\<close> for a thread
  \<^verbatim>\<open>Message\<close>. Identifiers are strings, as the \<^verbatim>\<open>Contact\<close> interface declares them.
\<close>

datatype contact_type = Group | Private

fun type_str :: "contact_type \<Rightarrow> string" where
  "type_str Group = ''group''"
| "type_str Private = ''private''"

record contact =
  c_id :: string
  c_name :: string
  c_avatar :: string
  c_type :: contact_type
  lastMessage :: "string option"
  lastMessageTime :: "int option"
  unread :: "nat option"
  member_count :: "nat option"
  max_member_count :: "nat option"
  remark :: "string option"

text \<open>
  A date field of a log entry, as \<^verbatim>\<open>new Date(x).getTime()\<close> sees it: \<open>Missing\<close> is a
  falsy field (absent or the empty string), \<open>Unparsable\<close> a non-empty string that
  \<^verbatim>\<open>Date\<close> cannot read, \<open>Epoch t\<close> a string that denotes \<open>t\<close> milliseconds since
  1970. \<open>getTime\<close> returns \<open>None\<close> where the source gets \<^verbatim>\<open>NaN\<close>.
\<close>

datatype date_field = Missing | Unparsable | Epoch int

fun getTime :: "date_field \<Rightarrow> int option" where
  "getTime (Epoch t) = Some t"
| "getTime Unparsable = None"
| "getTime Missing = None"

fun date_or :: "date_field \<Rightarrow> date_field \<Rightarrow> date_field" where
  "date_or Missing b = b"
| "date_or a b = a"

record log_msg =
  l_timestamp :: date_field
  l_time :: date_field
  l_message_type :: string
  l_user_id :: string
  l_group_id :: "string option"
  l_is_system :: bool
  l_is_self :: bool
  l_message :: "string option"

record thread_msg =
  m_id :: string
  m_timestamp :: string
  m_message_id :: string
  m_user_id :: string
  m_message :: string
  m_is_self :: bool

text \<open>
  A rejected request, as the handlers read it: \<^verbatim>\<open>error.response?.status\<close> and
  \<^verbatim>\<open>error.response?.data?.detail\<close>, both absent when no response came back.
\<close>

datatype js_error = JsError (status: "nat option") (detail: "string option")

datatype scroll_behavior = Smooth | Instant

record chat_state =
  contacts :: "contact list"
  selectedContact :: "contact option"
  messages :: "thread_msg list"
  inputMessage :: string
  loading :: bool
  sending :: bool
  unreadCounts :: "string \<rightharpoonup> nat"
  lastCheckedTime :: int
  viewedChats :: "string set"
  prevMessagesLength :: nat
  console :: "string list"
  alerts :: "string list"
  scrollCalls :: "scroll_behavior list"
  pendingReloads :: "contact list"
  access_token :: "string option"
  location_href :: "string option"

text \<open>
  \<open>viewedChats\<close> is \<^verbatim>\<open>viewedChatsRef.current\<close> and \<open>prevMessagesLength\<close> is
  \<^verbatim>\<open>prevMessagesLengthRef.current\<close>: refs, read at their current content by every
  closure. \<open>console\<close>, \<open>alerts\<close>, \<open>scrollCalls\<close> and \<open>pendingReloads\<close> record the
  effects on the host: the lines written by \<^verbatim>\<open>console.error\<close>/\<^verbatim>\<open>console.log\<close>, the
  texts passed to \<^verbatim>\<open>alert\<close>, the calls of \<^verbatim>\<open>scrollToBottom\<close>, and the thread reloads
  scheduled with \<^verbatim>\<open>setTimeout\<close>. \<open>access_token\<close> is the item of that name in
  \<^verbatim>\<open>localStorage\<close>, and \<open>location_href\<close> the address assigned to
  \<^verbatim>\<open>window.location.href\<close>, \<open>None\<close> as long as the page has assigned none. An
  assignment makes the browser leave the page: its state stays as it is and its timers fire
  no more.
\<close>

section \<open>The API client\<close>

text \<open>
  Every request of the page goes through the one axios client of \<^verbatim>\<open>utils/api.ts\<close>. Its
  response interceptor sees a rejection before the awaiting handler does: on status 401 it
  removes the token and sends the browser to the login page, then rejects all the same.
\<close>

definition responseInterceptor :: "js_error \<Rightarrow> chat_state \<Rightarrow> chat_state" where
  "responseInterceptor error s =
     (if status error = Some 401
      then s\<lparr>access_token := None, location_href := Some ''/login''\<rparr>
      else s)"

text \<open>The state when an awaited request has settled with \<open>response\<close>.\<close>

definition api_request :: "js_error + 'a \<Rightarrow> chat_state \<Rightarrow> chat_state" where
  "api_request response s =
     (case response of Inl error \<Rightarrow> responseInterceptor error s | Inr r \<Rightarrow> s)"

section \<open>Conversation keys\<close>

text \<open>\<^verbatim>\<open>x || 0\<close> on a count that may be absent.\<close>

fun count_or0 :: "nat option \<Rightarrow> nat" where
  "count_or0 None = 0"
| "count_or0 (Some n) = n"

text \<open>A template literal prints an absent \<^verbatim>\<open>group_id\<close> as \<^verbatim>\<open>undefined\<close>.\<close>

fun show_id :: "string option \<Rightarrow> string" where
  "show_id None = ''undefined''"
| "show_id (Some g) = g"

definition contactKey :: "contact \<Rightarrow> string" where
  "contactKey contact = type_str (c_type contact) @ ''-'' @ c_id contact"

definition msgKey :: "log_msg \<Rightarrow> string" where
  "msgKey msg =
     (if l_message_type msg = ''group'' then ''group-'' @ show_id (l_group_id msg)
      else ''private-'' @ l_user_id msg)"

section \<open>The global poll: \<^verbatim>\<open>checkNewMessages\<close>\<close>

text \<open>
  The poll effect depends on \<^verbatim>\<open>[selectedContact]\<close> only. The function
  \<^verbatim>\<open>checkNewMessages\<close> it hands to \<^verbatim>\<open>setInterval\<close> closes over the
  \<^verbatim>\<open>lastCheckedTime\<close> and \<^verbatim>\<open>selectedContact\<close> of the render that installed the
  effect; the two functional updaters read the state of the moment, and the viewed set is
  a ref.
\<close>

record poll_closure =
  cl_lastCheckedTime :: int
  cl_selectedContact :: "contact option"

definition isNew :: "int \<Rightarrow> log_msg \<Rightarrow> bool" where
  "isNew cursor msg =
     (case getTime (date_or (l_timestamp msg) (l_time msg)) of
        None \<Rightarrow> False
      | Some msgTime \<Rightarrow> msgTime > cursor)"

definition newMessagesOnly :: "int \<Rightarrow> log_msg list \<Rightarrow> log_msg list" where
  "newMessagesOnly cursor allMessages = filter (isNew cursor) allMessages"

definition isSelectedKey :: "contact option \<Rightarrow> string \<Rightarrow> bool" where
  "isSelectedKey sel k = (case sel of None \<Rightarrow> False | Some c \<Rightarrow> k = contactKey c)"

text \<open>The \<^verbatim>\<open>forEach\<close> over the new messages, with \<^verbatim>\<open>newUnreadCounts\<close> as accumulator.\<close>

fun countUnread ::
  "string set \<Rightarrow> contact option \<Rightarrow> log_msg list \<Rightarrow> (string \<rightharpoonup> nat) \<Rightarrow> (string \<rightharpoonup> nat)" where
  "countUnread viewed sel [] newUnreadCounts = newUnreadCounts"
| "countUnread viewed sel (msg # rest) newUnreadCounts =
     (if l_is_system msg \<or> l_is_self msg then countUnread viewed sel rest newUnreadCounts
      else if msgKey msg \<in> viewed then countUnread viewed sel rest newUnreadCounts
      else if isSelectedKey sel (msgKey msg) then countUnread viewed sel rest newUnreadCounts
      else countUnread viewed sel rest
             (newUnreadCounts(msgKey msg \<mapsto> count_or0 (newUnreadCounts (msgKey msg)) + 1)))"

text \<open>The updater of \<^verbatim>\<open>setUnreadCounts\<close>: every key of the tick's map is added to.\<close>

definition mergeCounts :: "(string \<rightharpoonup> nat) \<Rightarrow> (string \<rightharpoonup> nat) \<Rightarrow> (string \<rightharpoonup> nat)" where
  "mergeCounts prev newUnreadCounts =
     (\<lambda>key. case newUnreadCounts key of
               None \<Rightarrow> prev key
             | Some n \<Rightarrow> Some (count_or0 (prev key) + n))"

definition matchesContact :: "contact \<Rightarrow> log_msg \<Rightarrow> bool" where
  "matchesContact contact msg =
     (if l_message_type msg = ''group'' \<and> c_type contact = Group
        then l_group_id msg = Some (c_id contact)
      else if l_message_type msg = ''private'' \<and> c_type contact = Private
        then l_user_id msg = c_id contact
      else False)"

definition updateContact :: "(string \<rightharpoonup> nat) \<Rightarrow> log_msg list \<Rightarrow> contact \<Rightarrow> contact" where
  "updateContact newUnreadCounts allMessages contact =
     (case filter (matchesContact contact) allMessages of
        [] \<Rightarrow> contact
      | lastMsg # _ \<Rightarrow>
          contact\<lparr>lastMessageTime := getTime (l_timestamp lastMsg),
                  lastMessage := map_option (take 30) (l_message lastMsg),
                  unread := Some (count_or0 (newUnreadCounts (contactKey contact)))\<rparr>)"

text \<open>
  The comparator of the sort, and \<^verbatim>\<open>Array.prototype.sort\<close>: a stable sort, written as
  the insertion sort that places an element before the first one it does not follow.
\<close>

definition timeOr0 :: "contact \<Rightarrow> int" where
  "timeOr0 c = (case lastMessageTime c of None \<Rightarrow> 0 | Some t \<Rightarrow> t)"

definition compareContacts :: "contact \<Rightarrow> contact \<Rightarrow> int" where
  "compareContacts a b = (let timeA = timeOr0 a; timeB = timeOr0 b in timeB - timeA)"

fun insertBy :: "('a \<Rightarrow> 'a \<Rightarrow> int) \<Rightarrow> 'a \<Rightarrow> 'a list \<Rightarrow> 'a list" where
  "insertBy cmp x [] = [x]"
| "insertBy cmp x (y # ys) = (if cmp x y \<le> 0 then x # y # ys else y # insertBy cmp x ys)"

definition array_sort :: "('a \<Rightarrow> 'a \<Rightarrow> int) \<Rightarrow> 'a list \<Rightarrow> 'a list" where
  "array_sort cmp xs = foldr (insertBy cmp) xs []"

definition reconcile :: "(string \<rightharpoonup> nat) \<Rightarrow> log_msg list \<Rightarrow> contact list \<Rightarrow> contact list" where
  "reconcile newUnreadCounts allMessages prevContacts =
     array_sort compareContacts (map (updateContact newUnreadCounts allMessages) prevContacts)"

text \<open>
  The body of the \<^verbatim>\<open>try\<close> block: a rejected request throws before any state is set.
\<close>

definition checkNewMessages_try ::
  "poll_closure \<Rightarrow> js_error + log_msg list \<Rightarrow> int \<Rightarrow> chat_state \<Rightarrow> js_error + chat_state" where
  "checkNewMessages_try cl response now s =
     (case response of
        Inl err \<Rightarrow> Inl err
      | Inr allMessages \<Rightarrow>
          let newUnreadCounts =
                countUnread (viewedChats s) (cl_selectedContact cl)
                  (newMessagesOnly (cl_lastCheckedTime cl) allMessages) Map.empty
          in Inr (s\<lparr>unreadCounts := mergeCounts (unreadCounts s) newUnreadCounts,
                    lastCheckedTime := now,
                    contacts := reconcile newUnreadCounts allMessages (contacts s)\<rparr>))"

definition checkNewMessages ::
  "poll_closure \<Rightarrow> js_error + log_msg list \<Rightarrow> int \<Rightarrow> chat_state \<Rightarrow> chat_state" where
  "checkNewMessages cl response now s =
     (let s0 = api_request response s
      in case checkNewMessages_try cl response now s0 of
           Inl err \<Rightarrow> s0\<lparr>console := console s0 @ [''Failed to check new messages:'']\<rparr>
         | Inr s' \<Rightarrow> s')"

text \<open>
  One life of the poll effect: the closure is built once, run at once and then again by
  every firing of the interval, each with the response it received and the clock it read.
  Once the browser has been sent to another address the interval fires no more.
\<close>

definition capture :: "chat_state \<Rightarrow> poll_closure" where
  "capture s = \<lparr>cl_lastCheckedTime = lastCheckedTime s, cl_selectedContact = selectedContact s\<rparr>"

fun runTicks :: "poll_closure \<Rightarrow> ((js_error + log_msg list) \<times> int) list \<Rightarrow> chat_state \<Rightarrow> chat_state" where
  "runTicks cl [] s = s"
| "runTicks cl ((response, now) # ticks) s =
     (if location_href s \<noteq> None then s
      else runTicks cl ticks (checkNewMessages cl response now s))"

definition pollEffect :: "((js_error + log_msg list) \<times> int) list \<Rightarrow> chat_state \<Rightarrow> chat_state" where
  "pollEffect ticks s = runTicks (capture s) ticks s"

text \<open>The badge of the contact list: \<^verbatim>\<open>unreadCounts[contactKey] || 0\<close>.\<close>

definition unreadCount :: "chat_state \<Rightarrow> string \<Rightarrow> nat" where
  "unreadCount s key = count_or0 (unreadCounts s key)"

section \<open>Loading the directory\<close>

record dir_group =
  g_id :: string
  g_name :: string
  g_avatar :: string
  g_member_count :: "nat option"
  g_max_member_count :: "nat option"

record dir_friend =
  f_id :: string
  f_name :: string
  f_avatar :: string
  f_remark :: "string option"

definition contact_of_group :: "dir_group \<Rightarrow> contact" where
  "contact_of_group g =
     \<lparr>c_id = g_id g, c_name = g_name g, c_avatar = g_avatar g, c_type = Group,
      lastMessage = None, lastMessageTime = None, unread = None,
      member_count = g_member_count g, max_member_count = g_max_member_count g,
      remark = None\<rparr>"

definition contact_of_friend :: "dir_friend \<Rightarrow> contact" where
  "contact_of_friend f =
     \<lparr>c_id = f_id f, c_name = f_name f, c_avatar = f_avatar f, c_type = Private,
      lastMessage = None, lastMessageTime = None, unread = None,
      member_count = None, max_member_count = None, remark = f_remark f\<rparr>"

text \<open>\<^verbatim>\<open>loadContacts\<close> after its request has settled (\<^verbatim>\<open>loading\<close> was set before it).\<close>

definition loadContacts :: "js_error + (dir_group list \<times> dir_friend list) \<Rightarrow> chat_state \<Rightarrow> chat_state" where
  "loadContacts response s =
     (let s0 = api_request response s
      in case response of
           Inr (groups, friends) \<Rightarrow>
             s0\<lparr>contacts := map contact_of_group groups @ map contact_of_friend friends,
                loading := False\<rparr>
         | Inl err \<Rightarrow>
             s0\<lparr>console := console s0 @ [''Failed to load contacts:''], loading := False\<rparr>)"

section \<open>Selecting a conversation\<close>

text \<open>The \<^verbatim>\<open>onClick\<close> of a row of the contact list, and of the back button.\<close>

definition contact_onClick :: "contact \<Rightarrow> chat_state \<Rightarrow> chat_state" where
  "contact_onClick contact s =
     (let key = contactKey contact
      in s\<lparr>selectedContact := Some contact,
            viewedChats := insert key (viewedChats s),
            unreadCounts := (unreadCounts s)(key := None)\<rparr>)"

definition back_onClick :: "chat_state \<Rightarrow> chat_state" where
  "back_onClick s = s\<lparr>selectedContact := None\<rparr>"

section \<open>The thread of the selected conversation and the scroll decision\<close>

datatype scroll_action = Initial | Grown | NoAction

text \<open>The two branches of the scroll effect, in the order of the source.\<close>

definition classifyScroll :: "nat \<Rightarrow> nat \<Rightarrow> scroll_action" where
  "classifyScroll prev len =
     (if len > prev \<and> prev > 0 then Grown
      else if len > 0 \<and> prev = 0 then Initial
      else NoAction)"

fun scrollArg :: "scroll_action \<Rightarrow> scroll_behavior list" where
  "scrollArg Grown = [Smooth]"
| "scrollArg Initial = [Instant]"
| "scrollArg NoAction = []"

text \<open>What \<^verbatim>\<open>scrollToBottom\<close> asks of \<^verbatim>\<open>scrollIntoView\<close>.\<close>

fun scrollToBottom :: "scroll_behavior \<Rightarrow> string" where
  "scrollToBottom Instant = ''auto''"
| "scrollToBottom Smooth = ''smooth''"

definition scrollEffect :: "chat_state \<Rightarrow> chat_state" where
  "scrollEffect s =
     s\<lparr>scrollCalls :=
         scrollCalls s @ scrollArg (classifyScroll (prevMessagesLength s) (length (messages s))),
       prevMessagesLength := length (messages s)\<rparr>"

text \<open>\<^verbatim>\<open>setMessages(data)\<close> and the render it causes: the scroll effect depends on
  \<^verbatim>\<open>[messages]\<close> and every response is a fresh array.\<close>

definition setMessages :: "thread_msg list \<Rightarrow> chat_state \<Rightarrow> chat_state" where
  "setMessages data s = scrollEffect (s\<lparr>messages := data\<rparr>)"

text \<open>\<^verbatim>\<open>loadMessages\<close> once its request has settled.\<close>

definition loadMessages :: "bool \<Rightarrow> js_error + thread_msg list \<Rightarrow> chat_state \<Rightarrow> chat_state" where
  "loadMessages showLoading response s =
     (let s0 = api_request response s;
          s1 = (case response of
                  Inr data \<Rightarrow> setMessages data s0
                | Inl err \<Rightarrow> s0\<lparr>console := console s0 @ [''Failed to load messages:'']\<rparr>)
      in if showLoading then s1\<lparr>loading := False\<rparr> else s1)"

text \<open>
  The synchronous part of the thread-loader effect, run when \<^verbatim>\<open>selectedContact\<close> has
  changed: the first \<^verbatim>\<open>loadMessages\<close> is started and the length baseline is reset.
\<close>

definition threadLoaderEffect :: "chat_state \<Rightarrow> chat_state" where
  "threadLoaderEffect s =
     (case selectedContact s of
        None \<Rightarrow> s
      | Some c \<Rightarrow> s\<lparr>loading := True, prevMessagesLength := 0\<rparr>)"

text \<open>The successive thread responses of one selection, each set into the state.\<close>

fun threadUpdates :: "thread_msg list list \<Rightarrow> chat_state \<Rightarrow> chat_state" where
  "threadUpdates [] s = s"
| "threadUpdates (data # rest) s = threadUpdates rest (setMessages data s)"

text \<open>The classification made at each of a run of thread lengths, from a baseline.\<close>

fun scrollRun :: "nat \<Rightarrow> nat list \<Rightarrow> scroll_action list" where
  "scrollRun prev [] = []"
| "scrollRun prev (len # lens) = classifyScroll prev len # scrollRun len lens"

section \<open>Sending a message\<close>

record send_payload =
  p_type :: string
  p_id :: string
  p_message :: string

text \<open>The text of the fallback alert, in UTF-8.\<close>

definition sendFailedText :: string where
  "sendFailedText =
     [CHR 0xE5, CHR 0x8F, CHR 0x91, CHR 0xE9, CHR 0x80, CHR 0x81,
      CHR 0xE5, CHR 0xA4, CHR 0xB1, CHR 0xE8, CHR 0xB4, CHR 0xA5]"

text \<open>
  \<^verbatim>\<open>handleSendMessage\<close> up to its \<^verbatim>\<open>await\<close>: the guard, \<^verbatim>\<open>setSending(true)\<close> and the
  one request it makes. \<open>trim\<close> is \<^verbatim>\<open>String.prototype.trim\<close>.
\<close>

definition handleSendMessage_request ::
  "(string \<Rightarrow> string) \<Rightarrow> chat_state \<Rightarrow> chat_state \<times> send_payload option" where
  "handleSendMessage_request trim s =
     (if trim (inputMessage s) = [] \<or> selectedContact s = None \<or> sending s then (s, None)
      else case selectedContact s of
             None \<Rightarrow> (s, None)
           | Some c \<Rightarrow>
               (s\<lparr>sending := True\<rparr>,
                Some \<lparr>p_type = type_str (c_type c), p_id = c_id c,
                      p_message = trim (inputMessage s)\<rparr>))"

text \<open>The rest of the handler, once the request has settled: \<^verbatim>\<open>try\<close>, \<^verbatim>\<open>catch\<close>, \<^verbatim>\<open>finally\<close>.\<close>

definition handleSendMessage_settle :: "contact \<Rightarrow> js_error + unit \<Rightarrow> chat_state \<Rightarrow> chat_state" where
  "handleSendMessage_settle c response s =
     (let s0 = api_request response s;
          s1 = (case response of
                  Inr result \<Rightarrow>
                    s0\<lparr>console := console s0 @ [''Message sent successfully:''],
                       inputMessage := [],
                       pendingReloads := pendingReloads s0 @ [c]\<rparr>
                | Inl err \<Rightarrow>
                    s0\<lparr>console := console s0 @ [''Send message error:''],
                       alerts := alerts s0 @
                         [case detail err of
                            None \<Rightarrow> sendFailedText
                          | Some d \<Rightarrow> if d = [] then sendFailedText else d]\<rparr>)
      in s1\<lparr>sending := False\<rparr>)"

definition handleSendMessage ::
  "(string \<Rightarrow> string) \<Rightarrow> js_error + unit \<Rightarrow> chat_state \<Rightarrow> chat_state" where
  "handleSendMessage trim response s =
     (case handleSendMessage_request trim s of
        (s1, None) \<Rightarrow> s1
      | (s1, Some payload) \<Rightarrow>
          (case selectedContact s of
             None \<Rightarrow> s1
           | Some c \<Rightarrow> handleSendMessage_settle c response s1))"

section \<open>The state at mount and concrete inputs\<close>

text \<open>
  The initial values of the state cells, in a browser that holds a token and has not been
  sent elsewhere; \<open>now\<close> is the clock read by the first render.
\<close>

definition initialState :: "int \<Rightarrow> chat_state" where
  "initialState now =
     \<lparr>contacts = [], selectedContact = None, messages = [], inputMessage = [],
      loading = True, sending = False, unreadCounts = Map.empty, lastCheckedTime = now,
      viewedChats = {}, prevMessagesLength = 0, console = [], alerts = [],
      scrollCalls = [], pendingReloads = [], access_token = Some ''token'',
      location_href = None\<rparr>"

text \<open>A group message and a private message of another user, received at a given time.\<close>

definition groupMsg :: "string \<Rightarrow> int \<Rightarrow> log_msg" where
  "groupMsg g t =
     \<lparr>l_timestamp = Epoch t, l_time = Missing, l_message_type = ''group'',
      l_user_id = ''42'', l_group_id = Some g, l_is_system = False, l_is_self = False,
      l_message = Some ''hi''\<rparr>"

definition privateMsg :: "string \<Rightarrow> int \<Rightarrow> log_msg" where
  "privateMsg u t =
     \<lparr>l_timestamp = Epoch t, l_time = Missing, l_message_type = ''private'',
      l_user_id = u, l_group_id = None, l_is_system = False, l_is_self = False,
      l_message = Some ''hello''\<rparr>"

definition dirGroup :: "string \<Rightarrow> dir_group" where
  "dirGroup g =
     \<lparr>g_id = g, g_name = ''group'', g_avatar = [], g_member_count = None,
      g_max_member_count = None\<rparr>"

definition dirFriend :: "string \<Rightarrow> dir_friend" where
  "dirFriend u = \<lparr>f_id = u, f_name = ''friend'', f_avatar = [], f_remark = None\<rparr>"

text \<open>The page after mount at clock 1000, with a directory of groups and friends loaded.\<close>

definition mounted :: "string list \<Rightarrow> string list \<Rightarrow> chat_state" where
  "mounted gs us = loadContacts (Inr (map dirGroup gs, map dirFriend us)) (initialState 1000)"

definition threadMsg :: thread_msg where
  "threadMsg =
     \<lparr>m_id = ''1'', m_timestamp = ''2024-01-01T00:00:00'', m_message_id = ''1'',
      m_user_id = ''42'', m_message = ''hi'', m_is_self = False\<rparr>"

text \<open>A friend of the directory with a given stored time of the last message.\<close>

definition exContact :: "string \<Rightarrow> int option \<Rightarrow> contact" where
  "exContact u t = (contact_of_friend (dirFriend u))\<lparr>lastMessageTime := t\<rparr>"

text \<open>The mounted page with group 100 in its directory, after a click on its row.\<close>

definition selected100 :: chat_state where
  "selected100 = contact_onClick (contact_of_group (dirGroup ''100'')) (mounted [''100''] [])"

text \<open>A trim that removes blanks at both ends, and the page above with a text typed in.\<close>

definition trimBlanks :: "string \<Rightarrow> string" where
  "trimBlanks x =
     rev (dropWhile (\<lambda>ch. ch = CHR '' '') (rev (dropWhile (\<lambda>ch. ch = CHR '' '') x)))"

definition typed100 :: chat_state where
  "typed100 = selected100\<lparr>inputMessage := '' hello ''\<rparr>"

section \<open>Facts about the poll\<close>

lemma count_or0_merge:
  "count_or0 (mergeCounts prev new k) = count_or0 (prev k) + count_or0 (new k)"
  by (cases "new k") (simp_all add: mergeCounts_def)


lemma countUnread_count:
  "count_or0 (countUnread V sel ms acc k) = count_or0 (acc k) +
     length (filter (\<lambda>m. \<not> l_is_system m \<and> \<not> l_is_self m \<and> msgKey m \<notin> V \<and>
                          \<not> isSelectedKey sel (msgKey m) \<and> msgKey m = k) ms)"
  by (induction ms arbitrary: acc) auto

lemma responseInterceptor_fields [simp]:
  "contacts (responseInterceptor e s) = contacts s"
  "selectedContact (responseInterceptor e s) = selectedContact s"
  "messages (responseInterceptor e s) = messages s"
  "inputMessage (responseInterceptor e s) = inputMessage s"
  "sending (responseInterceptor e s) = sending s"
  "unreadCounts (responseInterceptor e s) = unreadCounts s"
  "lastCheckedTime (responseInterceptor e s) = lastCheckedTime s"
  "viewedChats (responseInterceptor e s) = viewedChats s"
  "prevMessagesLength (responseInterceptor e s) = prevMessagesLength s"
  "console (responseInterceptor e s) = console s"
  "alerts (responseInterceptor e s) = alerts s"
  "scrollCalls (responseInterceptor e s) = scrollCalls s"
  "pendingReloads (responseInterceptor e s) = pendingReloads s"
  by (simp_all add: responseInterceptor_def)

lemma api_request_Inr [simp]: "api_request (Inr r) s = s"
  by (simp add: api_request_def)

lemma api_request_Inl [simp]: "api_request (Inl e) s = responseInterceptor e s"
  by (simp add: api_request_def)

lemma viewedChats_tick [simp]: "viewedChats (checkNewMessages cl r now s) = viewedChats s"
  by (cases r) (simp_all add: checkNewMessages_def checkNewMessages_try_def Let_def)

lemma viewedChats_ticks [simp]: "viewedChats (runTicks cl ticks s) = viewedChats s"
  by (induction cl ticks s rule: runTicks.induct) simp_all



section \<open>Facts about the sort and the contact update\<close>

lemma insertBy_insort:
  "insertBy compareContacts x ys = insort_key (\<lambda>c. - timeOr0 c) x ys"
  by (induction ys) (simp_all add: compareContacts_def Let_def)

lemma array_sort_sort_key:
  "array_sort compareContacts xs = sort_key (\<lambda>c. - timeOr0 c) xs"
  by (induction xs) (simp_all add: array_sort_def insertBy_insort)

lemma array_sort_descending:
  "sorted_wrt (\<lambda>a b. timeOr0 b \<le> timeOr0 a) (array_sort compareContacts xs)"
proof -
  have "sorted (map (\<lambda>c. - timeOr0 c) (sort_key (\<lambda>c. - timeOr0 c) xs))"
    by (rule sorted_sort_key)
  then show ?thesis
    by (simp add: array_sort_sort_key sorted_map)
qed

lemma array_sort_stable:
  "filter (\<lambda>c. timeOr0 c = t) (array_sort compareContacts xs) = filter (\<lambda>c. timeOr0 c = t) xs"
proof -
  have "filter (\<lambda>c. - timeOr0 c = - t) (sort_key (\<lambda>c. - timeOr0 c) xs)
        = filter (\<lambda>c. - timeOr0 c = - t) xs"
    by (rule sort_key_stable)
  then show ?thesis by (simp add: array_sort_sort_key)
qed

lemma array_sort_set [simp]: "set (array_sort compareContacts xs) = set xs"
  by (simp add: array_sort_sort_key)

lemma array_sort_length [simp]: "length (array_sort compareContacts xs) = length xs"
  by (simp add: array_sort_sort_key)

lemma array_sort_idem:
  "array_sort compareContacts (array_sort compareContacts xs) = array_sort compareContacts xs"
  by (simp add: array_sort_sort_key sort_key_id_if_sorted)

lemma matchesContact_update [simp]:
  "matchesContact (updateContact n w c) = matchesContact c"
  by (rule ext) (auto simp: matchesContact_def updateContact_def split: list.splits)

lemma contactKey_update [simp]: "contactKey (updateContact n w c) = contactKey c"
  by (simp add: contactKey_def updateContact_def split: list.splits)

lemma updateContact_idem:
  "updateContact n w (updateContact n w c) = updateContact n w c"
proof (cases "filter (matchesContact c) w")
  case Nil
  then show ?thesis by (simp add: updateContact_def)
next
  case (Cons m ms)
  have "updateContact n w (updateContact n w c) =
        (updateContact n w c)\<lparr>lastMessageTime := getTime (l_timestamp m),
                  lastMessage := map_option (take 30) (l_message m),
                  unread := Some (count_or0 (n (contactKey c)))\<rparr>"
    using Cons by (subst updateContact_def) simp
  also have "\<dots> = updateContact n w c"
    using Cons by (simp add: updateContact_def)
  finally show ?thesis .
qed

section \<open>Selection clears the unread count\<close>


section \<open>Reconciling twice\<close>

text \<open>
  Claim C8. The reconciliation of the contact list is idempotent: run again on its own
  output, with the same poll window and the same per-tick counts, it returns that output.
\<close>

theorem reconcile_idempotent:
  "reconcile n w (reconcile n w cs) = reconcile n w cs"
proof -
  let ?u = "updateContact n w"
  let ?xs = "array_sort compareContacts (map ?u cs)"
  have "map ?u ?xs = ?xs"
    by (rule map_idI) (auto simp: updateContact_idem)
  then show ?thesis
    by (simp add: reconcile_def array_sort_idem)
qed

section \<open>Counting unread messages across ticks\<close>

lemmas poll_defs = pollEffect_def capture_def checkNewMessages_def checkNewMessages_try_def
  newMessagesOnly_def isNew_def msgKey_def isSelectedKey_def mergeCounts_def reconcile_def
  array_sort_def unreadCount_def initialState_def groupMsg_def mounted_def loadContacts_def
  dirGroup_def dirFriend_def contact_of_group_def contact_of_friend_def updateContact_def
  matchesContact_def contactKey_def compareContacts_def timeOr0_def privateMsg_def
  responseInterceptor_def Let_def

text \<open>
  What one successful tick adds to the count of a key: the messages of the window that are
  newer than the cursor of the closure, are neither system nor self messages, and whose key
  is neither viewed nor the closure's selection.
\<close>

lemma tick_count:
  "unreadCount (checkNewMessages cl (Inr w) now s) k =
     unreadCount s k +
     length (filter (\<lambda>m. \<not> l_is_system m \<and> \<not> l_is_self m \<and> msgKey m \<notin> viewedChats s \<and>
                \<not> isSelectedKey (cl_selectedContact cl) (msgKey m) \<and> msgKey m = k)
              (newMessagesOnly (cl_lastCheckedTime cl) w))"
  by (simp add: checkNewMessages_def checkNewMessages_try_def Let_def unreadCount_def
        count_or0_merge countUnread_count)

text \<open>
  Claim C1, evaluated. The page is mounted at clock 1000 with group 100 in its directory
  and nothing selected. The poll runs at once (empty log), then at clock 4000 and at clock
  7000; both later responses hold the same single message of group 100, stamped 2000.
  After the tick at 4000 the count is 1 and the cursor cell holds 4000. The tick at 7000
  still compares with the 1000 its closure captured and counts the message again: the
  count of group 100 is 2 with one message received.
\<close>

theorem unread_counted_twice:
  "unreadCount (pollEffect [(Inr [], 1001), (Inr [groupMsg ''100'' 2000], 4000)]
      (mounted [''100''] [])) ''group-100'' = 1 \<and>
   lastCheckedTime (pollEffect [(Inr [], 1001), (Inr [groupMsg ''100'' 2000], 4000)]
      (mounted [''100''] [])) = 4000 \<and>
   unreadCount (pollEffect [(Inr [], 1001), (Inr [groupMsg ''100'' 2000], 4000),
        (Inr [groupMsg ''100'' 2000], 7000)]
      (mounted [''100''] [])) ''group-100'' = 2"
  by (simp add: poll_defs)

section \<open>A failed poll\<close>

lemma tick_console:
  "checkNewMessages cl r now (s\<lparr>console := x\<rparr>) =
     (checkNewMessages cl r now s)
       \<lparr>console := (case r of Inl e \<Rightarrow> x @ [''Failed to check new messages:''] | Inr w \<Rightarrow> x)\<rparr>"
  by (cases r)
    (simp_all add: checkNewMessages_def checkNewMessages_try_def Let_def responseInterceptor_def)

lemma ticks_console:
  "\<forall>x. \<exists>y. runTicks cl ticks (s\<lparr>console := x\<rparr>) = (runTicks cl ticks s)\<lparr>console := y\<rparr>"
proof (induction cl ticks s rule: runTicks.induct)
  case (1 cl s)
  show ?case by auto
next
  case (2 cl response now ticks s)
  show ?case
  proof (cases "location_href s = None")
    case True
    with 2 have IH: "\<forall>x. \<exists>y.
        runTicks cl ticks ((checkNewMessages cl response now s)\<lparr>console := x\<rparr>) =
        (runTicks cl ticks (checkNewMessages cl response now s))\<lparr>console := y\<rparr>"
      by simp
    show ?thesis using True IH by (simp add: tick_console)
  next
    case False
    then show ?thesis by auto
  qed
qed

lemma failed_tick_state:
  "checkNewMessages cl (Inl err) now s =
     (responseInterceptor err s)\<lparr>console := console s @ [''Failed to check new messages:'']\<rparr>"
  by (simp add: checkNewMessages_def checkNewMessages_try_def)

text \<open>
  Claim C7, as the code has it. A tick whose request is rejected throws inside the
  \<^verbatim>\<open>try\<close> block before any state is set; the handler catches it, writes one line to the
  console and returns: the cursor, the unread map and the contact list are what they were.
  When the rejection is not a 401 nothing else has happened: the token and the address of
  the browser are untouched, and the ticks that follow, run by the same closure of the same
  interval, end with the cursor, the unread map and the contact list they would have
  reached had the failed tick not happened. When the rejection is a 401 the API client has
  removed the token and sent the browser to the login page, and no later tick runs.
\<close>

theorem failed_tick_leaves_state:
  "checkNewMessages_try cl (Inl err) now s = Inl err \<and>
   lastCheckedTime (checkNewMessages cl (Inl err) now s) = lastCheckedTime s \<and>
   unreadCounts (checkNewMessages cl (Inl err) now s) = unreadCounts s \<and>
   contacts (checkNewMessages cl (Inl err) now s) = contacts s \<and>
   console (checkNewMessages cl (Inl err) now s) =
     console s @ [''Failed to check new messages:''] \<and>
   (status err \<noteq> Some 401 \<longrightarrow>
      checkNewMessages cl (Inl err) now s =
        s\<lparr>console := console s @ [''Failed to check new messages:'']\<rparr> \<and>
      lastCheckedTime (runTicks cl ((Inl err, now) # ticks) s) =
        lastCheckedTime (runTicks cl ticks s) \<and>
      unreadCounts (runTicks cl ((Inl err, now) # ticks) s) =
        unreadCounts (runTicks cl ticks s) \<and>
      contacts (runTicks cl ((Inl err, now) # ticks) s) = contacts (runTicks cl ticks s)) \<and>
   (status err = Some 401 \<longrightarrow>
      checkNewMessages cl (Inl err) now s =
        s\<lparr>console := console s @ [''Failed to check new messages:''],
          access_token := None, location_href := Some ''/login''\<rparr> \<and>
      (location_href s = None \<longrightarrow>
         runTicks cl ((Inl err, now) # ticks) s = checkNewMessages cl (Inl err) now s))"
proof -
  let ?line = "''Failed to check new messages:''"
  have a: "checkNewMessages_try cl (Inl err) now s = Inl err"
    by (simp add: checkNewMessages_try_def)
  have b: "lastCheckedTime (checkNewMessages cl (Inl err) now s) = lastCheckedTime s"
    "unreadCounts (checkNewMessages cl (Inl err) now s) = unreadCounts s"
    "contacts (checkNewMessages cl (Inl err) now s) = contacts s"
    "console (checkNewMessages cl (Inl err) now s) = console s @ [?line]"
    by (simp_all add: failed_tick_state)
  have c: "status err \<noteq> Some 401 \<longrightarrow>
      checkNewMessages cl (Inl err) now s = s\<lparr>console := console s @ [?line]\<rparr> \<and>
      lastCheckedTime (runTicks cl ((Inl err, now) # ticks) s) =
        lastCheckedTime (runTicks cl ticks s) \<and>
      unreadCounts (runTicks cl ((Inl err, now) # ticks) s) =
        unreadCounts (runTicks cl ticks s) \<and>
      contacts (runTicks cl ((Inl err, now) # ticks) s) = contacts (runTicks cl ticks s)"
  proof
    assume n: "status err \<noteq> Some 401"
    then have f: "checkNewMessages cl (Inl err) now s = s\<lparr>console := console s @ [?line]\<rparr>"
      by (simp add: failed_tick_state responseInterceptor_def)
    obtain y where y:
      "runTicks cl ticks (s\<lparr>console := console s @ [?line]\<rparr>) = (runTicks cl ticks s)\<lparr>console := y\<rparr>"
      using ticks_console by blast
    have away: "location_href s \<noteq> None \<Longrightarrow> runTicks cl ticks s = s"
      by (cases ticks) auto
    show "checkNewMessages cl (Inl err) now s = s\<lparr>console := console s @ [?line]\<rparr> \<and>
      lastCheckedTime (runTicks cl ((Inl err, now) # ticks) s) =
        lastCheckedTime (runTicks cl ticks s) \<and>
      unreadCounts (runTicks cl ((Inl err, now) # ticks) s) =
        unreadCounts (runTicks cl ticks s) \<and>
      contacts (runTicks cl ((Inl err, now) # ticks) s) = contacts (runTicks cl ticks s)"
      using away by (cases "location_href s = None") (simp_all add: f y)
  qed
  have d: "status err = Some 401 \<longrightarrow>
      checkNewMessages cl (Inl err) now s =
        s\<lparr>console := console s @ [?line], access_token := None,
          location_href := Some ''/login''\<rparr> \<and>
      (location_href s = None \<longrightarrow>
         runTicks cl ((Inl err, now) # ticks) s = checkNewMessages cl (Inl err) now s)"
  proof
    assume u: "status err = Some 401"
    then have f: "checkNewMessages cl (Inl err) now s =
        s\<lparr>console := console s @ [?line], access_token := None,
          location_href := Some ''/login''\<rparr>"
      by (simp add: failed_tick_state responseInterceptor_def)
    have "location_href s = None \<longrightarrow>
         runTicks cl ((Inl err, now) # ticks) s = checkNewMessages cl (Inl err) now s"
      by (cases ticks) (auto simp: f)
    with f show "checkNewMessages cl (Inl err) now s =
        s\<lparr>console := console s @ [?line], access_token := None,
          location_href := Some ''/login''\<rparr> \<and>
      (location_href s = None \<longrightarrow>
         runTicks cl ((Inl err, now) # ticks) s = checkNewMessages cl (Inl err) now s)"
      by blast
  qed
  show ?thesis using a b c d by blast
qed

text \<open>
  A request that got no response, followed by a tick that brings a message of group 100:
  the message is counted as if the failure had not been. And a 401 on the mounted page.
\<close>

theorem failed_tick_leaves_state_witness:
  "status (JsError None None) \<noteq> Some 401 \<and>
   unreadCount (runTicks (capture (mounted [''100''] []))
      [(Inl (JsError None None), 4000), (Inr [groupMsg ''100'' 2000], 7000)]
      (mounted [''100''] [])) ''group-100'' = 1 \<and>
   status (JsError (Some 401) None) = Some 401 \<and>
   location_href (mounted [''100''] []) = None \<and>
   location_href (runTicks (capture (mounted [''100''] []))
      [(Inl (JsError (Some 401) None), 4000), (Inr [groupMsg ''100'' 2000], 7000)]
      (mounted [''100''] [])) = Some ''/login''"
proof -
  let ?s = "mounted [''100''] []"
  let ?cl = "capture ?s"
  let ?ok = "[(Inr [groupMsg ''100'' 2000], 7000)]"
  have n: "status (JsError None None) \<noteq> Some 401" by simp
  have u: "status (JsError (Some 401) None) = Some 401" by simp
  have l: "location_href ?s = None"
    by (simp add: mounted_def loadContacts_def initialState_def Let_def)
  note N = failed_tick_leaves_state [where cl = ?cl and s = ?s and now = 4000 and ticks = ?ok
      and err = "JsError None None",
      THEN conjunct2, THEN conjunct2, THEN conjunct2, THEN conjunct2, THEN conjunct2,
      THEN conjunct1, rule_format, OF n]
  note U = failed_tick_leaves_state [where cl = ?cl and s = ?s and now = 4000 and ticks = ?ok
      and err = "JsError (Some 401) None",
      THEN conjunct2, THEN conjunct2, THEN conjunct2, THEN conjunct2, THEN conjunct2,
      THEN conjunct2, rule_format, OF u]
  have "unreadCounts (runTicks ?cl ((Inl (JsError None None), 4000) # ?ok) ?s) =
      unreadCounts (runTicks ?cl ?ok ?s)"
    using N by blast
  moreover have "unreadCount (runTicks ?cl ?ok ?s) ''group-100'' = 1"
    by (simp add: poll_defs)
  ultimately have one:
    "unreadCount (runTicks ?cl ((Inl (JsError None None), 4000) # ?ok) ?s) ''group-100'' = 1"
    by (simp add: unreadCount_def)
  have "runTicks ?cl ((Inl (JsError (Some 401) None), 4000) # ?ok) ?s =
      checkNewMessages ?cl (Inl (JsError (Some 401) None)) 4000 ?s"
    using U l by blast
  moreover have "location_href (checkNewMessages ?cl (Inl (JsError (Some 401) None)) 4000 ?s)
      = Some ''/login''"
    using U by simp
  ultimately have away:
    "location_href (runTicks ?cl ((Inl (JsError (Some 401) None), 4000) # ?ok) ?s)
      = Some ''/login''"
    by simp
  show ?thesis using n one u l away by blast
qed

text \<open>
  Where the claim fails. The page is mounted with a token and group 100 in its directory.
  The poll at clock 4000 is answered with status 401: the token is gone and the browser is
  sent to the login page. The poll due at 7000, whose response would hold a message of
  group 100, does not run: the count stays 0 and the cursor stays 1000, where without the
  401 they are 1 and 7000.
\<close>

theorem unauthorized_tick_leaves_page:
  "access_token (mounted [''100''] []) = Some ''token'' \<and>
   location_href (mounted [''100''] []) = None \<and>
   access_token (pollEffect [(Inl (JsError (Some 401) None), 4000)]
      (mounted [''100''] [])) = None \<and>
   location_href (pollEffect [(Inl (JsError (Some 401) None), 4000)]
      (mounted [''100''] [])) = Some ''/login'' \<and>
   unreadCount (pollEffect [(Inl (JsError (Some 401) None), 4000),
        (Inr [groupMsg ''100'' 2000], 7000)]
      (mounted [''100''] [])) ''group-100'' = 0 \<and>
   lastCheckedTime (pollEffect [(Inl (JsError (Some 401) None), 4000),
        (Inr [groupMsg ''100'' 2000], 7000)]
      (mounted [''100''] [])) = 1000 \<and>
   unreadCount (pollEffect [(Inr [groupMsg ''100'' 2000], 7000)]
      (mounted [''100''] [])) ''group-100'' = 1 \<and>
   lastCheckedTime (pollEffect [(Inr [groupMsg ''100'' 2000], 7000)]
      (mounted [''100''] [])) = 7000"
  by (simp add: poll_defs)

section \<open>The scroll decision\<close>

text \<open>
  Claim C5. At every thread update the decision is: baseline 0 and a non-empty thread is
  the initial load, answered by \<^verbatim>\<open>scrollToBottom('instant')\<close>, a jump without animation; a
  thread longer than a non-zero baseline has grown, answered by the animated
  \<^verbatim>\<open>scrollToBottom('smooth')\<close>; anything else scrolls nothing. After the decision the
  baseline is the new length, whichever request delivered the thread.
\<close>

theorem scroll_classification:
  "classifyScroll prev len =
     (if prev = 0 \<and> len > 0 then Initial
      else if len > prev \<and> prev > 0 then Grown
      else NoAction) \<and>
   scrollCalls (setMessages data s) =
     scrollCalls s @ scrollArg (classifyScroll (prevMessagesLength s) (length data)) \<and>
   scrollArg Initial = [Instant] \<and> scrollToBottom Instant = ''auto'' \<and>
   scrollArg Grown = [Smooth] \<and> scrollToBottom Smooth = ''smooth'' \<and>
   scrollArg NoAction = [] \<and>
   prevMessagesLength (setMessages data s) = length data \<and>
   prevMessagesLength (loadMessages showLoading (Inr data) s) = length data"
  by (simp add: classifyScroll_def setMessages_def scrollEffect_def loadMessages_def Let_def)

section \<open>Sending\<close>

text \<open>
  Claim C9. No part of \<^verbatim>\<open>handleSendMessage\<close> writes the thread: not the request, not the
  settlement, whatever the response. When the guard lets the call through (a text is
  typed, a conversation is selected, no send is under way) the handler makes one request,
  for the selected conversation and the trimmed text. If that request is rejected the
  handler shows the failure to the user who sent, by \<^verbatim>\<open>alert\<close> with the detail of the error
  or the fallback text, writes it to the console, schedules no reload and makes no second
  request, keeps the typed text and ends the sending state; nothing else changes but what
  the API client does on a 401. If the request is accepted the handler clears the input
  and schedules a reload of the thread, and the thread is whatever such a reload returns:
  that is how the sent message comes to be shown. When the guard stops the call nothing
  happens at all.
\<close>

theorem send_leaves_thread:
  "messages (fst (handleSendMessage_request trim s)) = messages s \<and>
   messages (handleSendMessage_settle c response s) = messages s \<and>
   messages (handleSendMessage trim response s) = messages s \<and>
   alerts (handleSendMessage_settle c (Inl err) s) =
     alerts s @ [case detail err of None \<Rightarrow> sendFailedText
                 | Some d \<Rightarrow> if d = [] then sendFailedText else d] \<and>
   pendingReloads (handleSendMessage_settle c (Inl err) s) = pendingReloads s \<and>
   sending (handleSendMessage_settle c (Inl err) s) = False \<and>
   inputMessage (handleSendMessage_settle c (Inl err) s) = inputMessage s \<and>
   pendingReloads (handleSendMessage_settle c (Inr ()) s) = pendingReloads s @ [c] \<and>
   alerts (handleSendMessage_settle c (Inr ()) s) = alerts s \<and>
   messages (loadMessages showLoading (Inr data) s) = data \<and>
   (trim (inputMessage s) = [] \<or> selectedContact s = None \<or> sending s \<longrightarrow>
      handleSendMessage_request trim s = (s, None) \<and>
      handleSendMessage trim response s = s) \<and>
   (trim (inputMessage s) \<noteq> [] \<and> selectedContact s = Some c \<and> \<not> sending s \<longrightarrow>
      handleSendMessage_request trim s =
        (s\<lparr>sending := True\<rparr>,
         Some \<lparr>p_type = type_str (c_type c), p_id = c_id c,
               p_message = trim (inputMessage s)\<rparr>) \<and>
      handleSendMessage trim (Inl err) s =
        (responseInterceptor err s)
          \<lparr>console := console s @ [''Send message error:''],
           alerts := alerts s @ [case detail err of None \<Rightarrow> sendFailedText
                                 | Some d \<Rightarrow> if d = [] then sendFailedText else d],
           sending := False\<rparr> \<and>
      alerts (handleSendMessage trim (Inl err) s) =
        alerts s @ [case detail err of None \<Rightarrow> sendFailedText
                    | Some d \<Rightarrow> if d = [] then sendFailedText else d] \<and>
      console (handleSendMessage trim (Inl err) s) = console s @ [''Send message error:''] \<and>
      pendingReloads (handleSendMessage trim (Inl err) s) = pendingReloads s \<and>
      inputMessage (handleSendMessage trim (Inl err) s) = inputMessage s \<and>
      sending (handleSendMessage trim (Inl err) s) = False \<and>
      handleSendMessage trim (Inr ()) s =
        s\<lparr>console := console s @ [''Message sent successfully:''],
          inputMessage := [],
          pendingReloads := pendingReloads s @ [c],
          sending := False\<rparr>)"
proof -
  have a: "messages (fst (handleSendMessage_request trim s)) = messages s"
    by (simp add: handleSendMessage_request_def split: option.splits)
  have b: "messages (handleSendMessage_settle c' response s') = messages s'" for c' s'
    by (cases response) (simp_all add: handleSendMessage_settle_def Let_def)
  have b': "messages (handleSendMessage trim response s) = messages s"
    by (simp add: handleSendMessage_def handleSendMessage_request_def b split: option.splits)
  have d: "alerts (handleSendMessage_settle c (Inl err) s) =
     alerts s @ [case detail err of None \<Rightarrow> sendFailedText
                 | Some d \<Rightarrow> if d = [] then sendFailedText else d]"
    "pendingReloads (handleSendMessage_settle c (Inl err) s) = pendingReloads s"
    "sending (handleSendMessage_settle c (Inl err) s) = False"
    "inputMessage (handleSendMessage_settle c (Inl err) s) = inputMessage s"
    "pendingReloads (handleSendMessage_settle c (Inr ()) s) = pendingReloads s @ [c]"
    "alerts (handleSendMessage_settle c (Inr ()) s) = alerts s"
    "messages (loadMessages showLoading (Inr data) s) = data"
    by (simp_all add: handleSendMessage_settle_def loadMessages_def setMessages_def
        scrollEffect_def Let_def)
  have e: "trim (inputMessage s) = [] \<or> selectedContact s = None \<or> sending s \<longrightarrow>
      handleSendMessage_request trim s = (s, None) \<and>
      handleSendMessage trim response s = s"
    by (simp add: handleSendMessage_def handleSendMessage_request_def)
  have f: "trim (inputMessage s) \<noteq> [] \<and> selectedContact s = Some c \<and> \<not> sending s \<longrightarrow>
      handleSendMessage_request trim s =
        (s\<lparr>sending := True\<rparr>,
         Some \<lparr>p_type = type_str (c_type c), p_id = c_id c,
               p_message = trim (inputMessage s)\<rparr>) \<and>
      handleSendMessage trim (Inl err) s =
        (responseInterceptor err s)
          \<lparr>console := console s @ [''Send message error:''],
           alerts := alerts s @ [case detail err of None \<Rightarrow> sendFailedText
                                 | Some d \<Rightarrow> if d = [] then sendFailedText else d],
           sending := False\<rparr> \<and>
      alerts (handleSendMessage trim (Inl err) s) =
        alerts s @ [case detail err of None \<Rightarrow> sendFailedText
                    | Some d \<Rightarrow> if d = [] then sendFailedText else d] \<and>
      console (handleSendMessage trim (Inl err) s) = console s @ [''Send message error:''] \<and>
      pendingReloads (handleSendMessage trim (Inl err) s) = pendingReloads s \<and>
      inputMessage (handleSendMessage trim (Inl err) s) = inputMessage s \<and>
      sending (handleSendMessage trim (Inl err) s) = False \<and>
      handleSendMessage trim (Inr ()) s =
        s\<lparr>console := console s @ [''Message sent successfully:''],
          inputMessage := [],
          pendingReloads := pendingReloads s @ [c],
          sending := False\<rparr>"
    by (simp add: handleSendMessage_def handleSendMessage_request_def
        handleSendMessage_settle_def Let_def responseInterceptor_def)
  show ?thesis using a b b' d e f by blast
qed

text \<open>
  Group 100 is selected and a text is typed; the send is rejected with a detail. One alert
  carries the detail, nothing is scheduled, the text is still there. With a send under way
  the same call does nothing.
\<close>

theorem send_leaves_thread_witness:
  "trimBlanks (inputMessage typed100) \<noteq> [] \<and>
   selectedContact typed100 = Some (contact_of_group (dirGroup ''100'')) \<and>
   \<not> sending typed100 \<and>
   snd (handleSendMessage_request trimBlanks typed100) =
     Some \<lparr>p_type = ''group'', p_id = ''100'', p_message = ''hello''\<rparr> \<and>
   alerts (handleSendMessage trimBlanks (Inl (JsError (Some 500) (Some ''offline''))) typed100)
     = [''offline''] \<and>
   pendingReloads (handleSendMessage trimBlanks
      (Inl (JsError (Some 500) (Some ''offline''))) typed100) = [] \<and>
   inputMessage (handleSendMessage trimBlanks
      (Inl (JsError (Some 500) (Some ''offline''))) typed100) = '' hello '' \<and>
   sending (typed100\<lparr>sending := True\<rparr>) \<and>
   handleSendMessage trimBlanks (Inl (JsError (Some 500) (Some ''offline'')))
      (typed100\<lparr>sending := True\<rparr>) = typed100\<lparr>sending := True\<rparr>"
proof -
  let ?c = "contact_of_group (dirGroup ''100'')"
  let ?e = "JsError (Some 500) (Some ''offline'')"
  have t: "trimBlanks (inputMessage typed100) = ''hello''"
    by (simp add: typed100_def trimBlanks_def)
  have sel: "selectedContact typed100 = Some ?c"
    by (simp add: typed100_def selected100_def contact_onClick_def Let_def)
  have ns: "\<not> sending typed100"
    by (simp add: typed100_def selected100_def contact_onClick_def Let_def mounted_def
        loadContacts_def initialState_def)
  have st: "alerts typed100 = []" "pendingReloads typed100 = []"
    "inputMessage typed100 = '' hello ''"
    by (simp_all add: typed100_def selected100_def contact_onClick_def Let_def mounted_def
        loadContacts_def initialState_def)
  have g: "trimBlanks (inputMessage typed100) \<noteq> [] \<and> selectedContact typed100 = Some ?c \<and>
      \<not> sending typed100"
    using t sel ns by simp
  note T = send_leaves_thread [where trim = trimBlanks and s = typed100 and c = ?c
      and err = ?e]
  note G = T [THEN conjunct2, THEN conjunct2, THEN conjunct2, THEN conjunct2, THEN conjunct2,
      THEN conjunct2, THEN conjunct2, THEN conjunct2, THEN conjunct2, THEN conjunct2,
      THEN conjunct2, rule_format, OF g]
  have req: "snd (handleSendMessage_request trimBlanks typed100) =
     Some \<lparr>p_type = ''group'', p_id = ''100'', p_message = ''hello''\<rparr>"
    using G [THEN conjunct1] by (simp add: t contact_of_group_def dirGroup_def)
  note G3 = G [THEN conjunct2, THEN conjunct2]
  have al: "alerts (handleSendMessage trimBlanks (Inl ?e) typed100) = [''offline'']"
    using G3 [THEN conjunct1] by (simp add: st)
  note G5 = G3 [THEN conjunct2, THEN conjunct2]
  have pr: "pendingReloads (handleSendMessage trimBlanks (Inl ?e) typed100) = []"
    using G5 [THEN conjunct1] by (simp add: st)
  have im: "inputMessage (handleSendMessage trimBlanks (Inl ?e) typed100) = '' hello ''"
    using G5 [THEN conjunct2, THEN conjunct1] by (simp add: st)
  have busy: "sending (typed100\<lparr>sending := True\<rparr>)" by simp
  have stop: "handleSendMessage trimBlanks (Inl ?e) (typed100\<lparr>sending := True\<rparr>)
      = typed100\<lparr>sending := True\<rparr>"
    using send_leaves_thread [where trim = trimBlanks and s = "typed100\<lparr>sending := True\<rparr>"
        and response = "Inl ?e",
        THEN conjunct2, THEN conjunct2, THEN conjunct2, THEN conjunct2, THEN conjunct2,
        THEN conjunct2, THEN conjunct2, THEN conjunct2, THEN conjunct2, THEN conjunct2,
        THEN conjunct1]
    by simp
  show ?thesis using g req al pr im busy stop by blast
qed

section \<open>The order of the reconciled contact list\<close>

lemma reconcile_descending:
  "sorted_wrt (\<lambda>a b. timeOr0 b \<le> timeOr0 a) (reconcile n w cs)"
  by (simp add: reconcile_def array_sort_descending)

lemma reconcile_stable:
  "filter (\<lambda>c. timeOr0 c = t) (reconcile n w cs) =
   filter (\<lambda>c. timeOr0 c = t) (map (updateContact n w) cs)"
  by (simp add: reconcile_def array_sort_stable)

lemma descending_none_after_positive:
  assumes srt: "sorted_wrt (\<lambda>a b. timeOr0 b \<le> timeOr0 a) xs"
    and i: "i < length xs" and j: "j < length xs"
    and none: "lastMessageTime (xs ! i) = None" and pos: "0 < timeOr0 (xs ! j)"
  shows "j < i"
proof (rule ccontr)
  assume "\<not> j < i"
  then have "i = j \<or> i < j" by auto
  then show False
  proof
    assume "i = j"
    with none pos show False by (simp add: timeOr0_def)
  next
    assume "i < j"
    with srt j have "timeOr0 (xs ! j) \<le> timeOr0 (xs ! i)"
      by (simp add: sorted_wrt_iff_nth_less)
    with none pos show False by (simp add: timeOr0_def)
  qed
qed

text \<open>
  Claim C3, as the code has it. A contact without a stored time is sorted as time 0. The
  reconciled list is in descending order of that time; contacts of equal time keep the
  order they had in the list the step started from (the sort is stable); every contact
  with a positive time stands before every contact without one; and three contacts
  \<open>[a, b, c]\<close> with no time, time 100 and time 200 come out as \<open>[c, b, a]\<close> when the
  window brings nothing.
\<close>

theorem reconcile_sorted_stable:
  "sorted_wrt (\<lambda>a b. timeOr0 b \<le> timeOr0 a) (reconcile n w cs) \<and>
   (\<forall>t. filter (\<lambda>c. timeOr0 c = t) (reconcile n w cs) =
        filter (\<lambda>c. timeOr0 c = t) (map (updateContact n w) cs)) \<and>
   (\<forall>i j. i < length (reconcile n w cs) \<and> j < length (reconcile n w cs) \<and>
          lastMessageTime (reconcile n w cs ! i) = None \<and> 0 < timeOr0 (reconcile n w cs ! j)
          \<longrightarrow> j < i) \<and>
   (lastMessageTime a = None \<and> lastMessageTime b = Some 100 \<and> lastMessageTime c = Some 200
      \<longrightarrow> reconcile n [] [a, b, c] = [c, b, a])"
proof -
  have d: "lastMessageTime a = None \<and> lastMessageTime b = Some 100 \<and> lastMessageTime c = Some 200
      \<longrightarrow> reconcile n [] [a, b, c] = [c, b, a]"
    by (simp add: reconcile_def updateContact_def array_sort_def compareContacts_def timeOr0_def)
  show ?thesis
    using reconcile_descending [of n w cs] reconcile_stable [of _ n w cs] d
      descending_none_after_positive [of "reconcile n w cs"]
    by blast
qed

text \<open>Scenario D: the contacts A (no time), B (100), C (200) and an empty window.\<close>

theorem reconcile_sorted_stable_witness:
  "reconcile Map.empty []
     [exContact ''A'' None, exContact ''B'' (Some 100), exContact ''C'' (Some 200)]
     = [exContact ''C'' (Some 200), exContact ''B'' (Some 100), exContact ''A'' None] \<and>
   lastMessageTime ([exContact ''C'' (Some 200), exContact ''B'' (Some 100),
      exContact ''A'' None] ! 2) = None \<and>
   0 < timeOr0 ([exContact ''C'' (Some 200), exContact ''B'' (Some 100),
      exContact ''A'' None] ! 0) \<and>
   (0::nat) < 2"
proof -
  let ?A = "exContact ''A'' None"
  let ?B = "exContact ''B'' (Some 100)"
  let ?C = "exContact ''C'' (Some 200)"
  note T = reconcile_sorted_stable [where n = Map.empty and w = "[]" and cs = "[?A, ?B, ?C]"
      and a = ?A and b = ?B and c = ?C]
  note T3 = T [THEN conjunct2, THEN conjunct2]
  have d: "reconcile Map.empty [] [?A, ?B, ?C] = [?C, ?B, ?A]"
    using T3 [THEN conjunct2] by (simp add: exContact_def)
  have n2: "lastMessageTime ([?C, ?B, ?A] ! 2) = None"
    by (simp add: exContact_def)
  have p0: "0 < timeOr0 ([?C, ?B, ?A] ! 0)"
    by (simp add: exContact_def timeOr0_def)
  have "(0::nat) < 2"
    using T3 [THEN conjunct1, rule_format, of 2 0] n2 p0 by (simp add: d)
  then show ?thesis using d n2 p0 by blast
qed

text \<open>
  Where the claim fails. Friends A and B are loaded in that order. A poll that brings a
  message of B stamped before 1970 leaves A, which has no time, in front of B, which has
  one. And after a poll that brings a message of B and a later poll that brings a message
  of A with the same stamp, the two are tied and stand in the order B, A of the previous
  list, not in the order A, B of the directory.
\<close>

theorem no_timestamp_not_last:
  "map c_id (contacts (mounted [] [''A'', ''B''])) = [''A'', ''B''] \<and>
   map c_id (contacts (pollEffect [(Inr [privateMsg ''B'' (- 1000)], 4000)]
      (mounted [] [''A'', ''B'']))) = [''A'', ''B''] \<and>
   map lastMessageTime (contacts (pollEffect [(Inr [privateMsg ''B'' (- 1000)], 4000)]
      (mounted [] [''A'', ''B'']))) = [None, Some (- 1000)] \<and>
   map c_id (contacts (pollEffect [(Inr [privateMsg ''B'' 2000], 4000),
        (Inr [privateMsg ''A'' 2000, privateMsg ''B'' 2000], 7000)]
      (mounted [] [''A'', ''B'']))) = [''B'', ''A''] \<and>
   map lastMessageTime (contacts (pollEffect [(Inr [privateMsg ''B'' 2000], 4000),
        (Inr [privateMsg ''A'' 2000, privateMsg ''B'' 2000], 7000)]
      (mounted [] [''A'', ''B'']))) = [Some 2000, Some 2000]"
  by (simp add: poll_defs)

section \<open>The stored time of the last message\<close>

text \<open>
  Claim C4, as the code has it. A contact that no message of the window matches is left as
  it is. A contact that some message of the window matches takes the time and the preview
  (the first 30 characters) of the first such message in the order of the window, without
  a comparison with the stored time: also when that message is older than the stored time.
  The reconciled list holds exactly the contacts so updated.
\<close>

theorem update_overwrites_from_first_match:
  "(filter (matchesContact c) w = [] \<longrightarrow> updateContact n w c = c) \<and>
   (\<forall>m ms. filter (matchesContact c) w = m # ms \<longrightarrow>
       lastMessageTime (updateContact n w c) = getTime (l_timestamp m) \<and>
       lastMessage (updateContact n w c) = map_option (take 30) (l_message m)) \<and>
   (\<forall>m ms t0 t1. filter (matchesContact c) w = m # ms \<and> lastMessageTime c = Some t0 \<and>
       getTime (l_timestamp m) = Some t1 \<and> t1 < t0 \<longrightarrow>
       lastMessageTime (updateContact n w c) = Some t1) \<and>
   set (reconcile n w cs) = updateContact n w ` set cs \<and>
   length (reconcile n w cs) = length cs"
  by (simp add: updateContact_def reconcile_def)

theorem update_overwrites_witness:
  "updateContact Map.empty [] (contact_of_group (dirGroup ''100''))
     = contact_of_group (dirGroup ''100'') \<and>
   filter (matchesContact ((contact_of_group (dirGroup ''100''))\<lparr>lastMessageTime := Some 4000\<rparr>))
     [groupMsg ''100'' 3000, groupMsg ''100'' 5000]
     = [groupMsg ''100'' 3000, groupMsg ''100'' 5000] \<and>
   lastMessageTime (updateContact Map.empty [groupMsg ''100'' 3000, groupMsg ''100'' 5000]
      ((contact_of_group (dirGroup ''100''))\<lparr>lastMessageTime := Some 4000\<rparr>)) = Some 3000"
proof -
  let ?c = "contact_of_group (dirGroup ''100'')"
  let ?c4 = "?c\<lparr>lastMessageTime := Some 4000\<rparr>"
  let ?w = "[groupMsg ''100'' 3000, groupMsg ''100'' 5000]"
  have u: "updateContact Map.empty [] ?c = ?c"
    using update_overwrites_from_first_match [where c = ?c and w = "[]" and n = Map.empty,
        THEN conjunct1]
    by simp
  have f: "filter (matchesContact ?c4) ?w = ?w"
    by (simp add: matchesContact_def groupMsg_def contact_of_group_def dirGroup_def)
  have "lastMessageTime (updateContact Map.empty ?w ?c4) = Some 3000"
    using update_overwrites_from_first_match [where c = ?c4 and w = ?w and n = Map.empty,
        THEN conjunct2, THEN conjunct2, THEN conjunct1, rule_format,
        of "groupMsg ''100'' 3000" "[groupMsg ''100'' 5000]" 4000 3000] f
    by (simp add: groupMsg_def)
  then show ?thesis using u f by blast
qed

text \<open>
  Where the claim fails. Group 100 has a message stamped 3000. In a first run a message
  stamped 2000 reaches the log later and stands first in the next window; in a second run
  the next window, newest first, no longer holds the message stamped 3000. In both the
  stored time goes from 3000 back to 2000.
\<close>

theorem lastMessageTime_regresses:
  "map lastMessageTime (contacts (pollEffect [(Inr [groupMsg ''100'' 3000], 4000)]
      (mounted [''100''] []))) = [Some 3000] \<and>
   map lastMessageTime (contacts (pollEffect [(Inr [groupMsg ''100'' 3000], 4000),
        (Inr [groupMsg ''100'' 2000, groupMsg ''100'' 3000], 7000)]
      (mounted [''100''] []))) = [Some 2000] \<and>
   map lastMessageTime (contacts (pollEffect [(Inr [groupMsg ''100'' 3000], 4000),
        (Inr [groupMsg ''100'' 2000], 7000)]
      (mounted [''100''] []))) = [Some 2000]"
  by (simp add: poll_defs)

section \<open>The scroll decisions of one selection\<close>

lemma setMessages_fields [simp]:
  "prevMessagesLength (setMessages data s) = length data"
  "scrollCalls (setMessages data s) =
     scrollCalls s @ scrollArg (classifyScroll (prevMessagesLength s) (length data))"
  by (simp_all add: setMessages_def scrollEffect_def)

lemma threadUpdates_scrollCalls:
  "scrollCalls (threadUpdates datas s) =
     scrollCalls s @ concat (map scrollArg (scrollRun (prevMessagesLength s) (map length datas)))"
  by (induction datas arbitrary: s) simp_all

lemma scrollRun_length [simp]: "length (scrollRun prev lens) = length lens"
  by (induction lens arbitrary: prev) simp_all

lemma scrollRun_nth:
  "i < length lens \<Longrightarrow>
   scrollRun prev lens ! i = classifyScroll (if i = 0 then prev else lens ! (i - 1)) (lens ! i)"
proof (induction lens arbitrary: prev i)
  case Nil
  then show ?case by simp
next
  case (Cons len lens)
  show ?case
  proof (cases i)
    case 0
    then show ?thesis by simp
  next
    case (Suc k)
    with Cons.prems have k: "k < length lens" by simp
    show ?thesis
      using Cons.IH [OF k, of len] Suc by (cases k) simp_all
  qed
qed

lemma scrollRun_positive_no_initial:
  "0 < prev \<Longrightarrow> \<forall>p \<in> set ps. 0 < p \<Longrightarrow> count_list (scrollRun prev ps) Initial = 0"
  by (induction ps arbitrary: prev) (simp_all add: classifyScroll_def)

lemma scrollRun_zeros:
  "scrollRun 0 (replicate k 0 @ ps) = replicate k NoAction @ scrollRun 0 ps"
  by (induction k) (simp_all add: classifyScroll_def)

lemma count_replicate_NoAction [simp]: "count_list (replicate k NoAction) Initial = 0"
  by (induction k) simp_all

lemma scrollRun_once:
  assumes "ps \<noteq> []" and "\<forall>p \<in> set ps. 0 < p"
  shows "count_list (scrollRun 0 (replicate k 0 @ ps)) Initial = 1"
proof -
  obtain p qs where ps: "ps = p # qs" using assms(1) by (cases ps) auto
  with assms(2) have p: "0 < p" and qs: "\<forall>q \<in> set qs. 0 < q" by auto
  have "count_list (scrollRun 0 ps) Initial = 1"
    using p scrollRun_positive_no_initial [OF p qs] by (simp add: ps classifyScroll_def)
  then show ?thesis by (simp add: scrollRun_zeros)
qed

text \<open>
  Claim C6, as the code has it. A selection starts when the thread-loader effect resets
  the baseline to 0; the thread responses that follow are classified one after the other,
  each against the length of the response before it. The initial scroll is decided at
  exactly the responses that are non-empty while the one before was empty (or there was
  none before); the animated scroll at exactly the responses longer than a non-empty one
  before. So the initial scroll happens once when the thread, after any number of empty
  responses, is non-empty and stays non-empty.
\<close>

theorem initial_on_each_rise_from_empty:
  assumes sel: "selectedContact s = Some c"
  shows "prevMessagesLength (threadLoaderEffect s) = 0 \<and>
    scrollCalls (threadUpdates datas (threadLoaderEffect s)) =
      scrollCalls s @ concat (map scrollArg (scrollRun 0 (map length datas))) \<and>
    (\<forall>i < length lens. (scrollRun 0 lens ! i = Initial) =
        (0 < lens ! i \<and> (i = 0 \<or> lens ! (i - 1) = 0))) \<and>
    (\<forall>i < length lens. (scrollRun 0 lens ! i = Grown) =
        (0 < i \<and> 0 < lens ! (i - 1) \<and> lens ! (i - 1) < lens ! i)) \<and>
    (ps \<noteq> [] \<and> (\<forall>p \<in> set ps. 0 < p) \<longrightarrow>
        count_list (scrollRun 0 (replicate k 0 @ ps)) Initial = 1)"
proof -
  have a: "prevMessagesLength (threadLoaderEffect s) = 0"
    and a': "scrollCalls (threadLoaderEffect s) = scrollCalls s"
    using sel by (simp_all add: threadLoaderEffect_def)
  have b: "scrollCalls (threadUpdates datas (threadLoaderEffect s)) =
      scrollCalls s @ concat (map scrollArg (scrollRun 0 (map length datas)))"
    by (simp add: threadUpdates_scrollCalls a a')
  have c: "\<forall>i < length lens. (scrollRun 0 lens ! i = Initial) =
        (0 < lens ! i \<and> (i = 0 \<or> lens ! (i - 1) = 0))"
    by (auto simp: scrollRun_nth classifyScroll_def)
  have d: "\<forall>i < length lens. (scrollRun 0 lens ! i = Grown) =
        (0 < i \<and> 0 < lens ! (i - 1) \<and> lens ! (i - 1) < lens ! i)"
    by (auto simp: scrollRun_nth classifyScroll_def)
  have e: "ps \<noteq> [] \<and> (\<forall>p \<in> set ps. 0 < p) \<longrightarrow>
        count_list (scrollRun 0 (replicate k 0 @ ps)) Initial = 1"
    using scrollRun_once by blast
  show ?thesis using a b c d e by blast
qed

text \<open>Scenario C: the thread is loaded with 10 messages, polled at 10, then at 12.\<close>

theorem initial_on_each_rise_witness:
  "selectedContact selected100 = Some (contact_of_group (dirGroup ''100'')) \<and>
   scrollCalls (threadUpdates
      [replicate 10 threadMsg, replicate 10 threadMsg, replicate 12 threadMsg]
      (threadLoaderEffect selected100)) = [Instant, Smooth] \<and>
   scrollRun 0 [10, 10, 12] ! 0 = Initial \<and>
   scrollRun 0 [10, 10, 12] ! 2 = Grown \<and>
   count_list (scrollRun 0 [0, 10, 10, 12]) Initial = 1"
proof -
  have sel: "selectedContact selected100 = Some (contact_of_group (dirGroup ''100''))"
    by (simp add: selected100_def contact_onClick_def Let_def)
  have emp: "scrollCalls selected100 = []"
    by (simp add: selected100_def contact_onClick_def Let_def mounted_def loadContacts_def
        initialState_def)
  note T = initial_on_each_rise_from_empty [OF sel,
        where datas = "[replicate 10 threadMsg, replicate 10 threadMsg, replicate 12 threadMsg]"
          and lens = "[10, 10, 12]" and ps = "[10, 10, 12]" and k = "Suc 0"]
  note T2 = T [THEN conjunct2]
  note T3 = T2 [THEN conjunct2]
  note T4 = T3 [THEN conjunct2]
  have calls: "scrollCalls (threadUpdates
        [replicate 10 threadMsg, replicate 10 threadMsg, replicate 12 threadMsg]
        (threadLoaderEffect selected100)) = [Instant, Smooth]"
    using T2 [THEN conjunct1] by (simp add: emp classifyScroll_def)
  have first: "scrollRun 0 [10, 10, 12] ! 0 = Initial"
    using T3 [THEN conjunct1, rule_format, of 0] by simp
  have third: "scrollRun 0 [10, 10, 12] ! 2 = Grown"
    using T4 [THEN conjunct1, rule_format, of 2] by simp
  have "count_list (scrollRun 0 (replicate (Suc 0) 0 @ [10, 10, 12])) Initial = 1"
    using T4 [THEN conjunct2] by simp
  then have once: "count_list (scrollRun 0 [0, 10, 10, 12]) Initial = 1"
    by simp
  show ?thesis using sel calls first third once by blast
qed

text \<open>
  Where the claim fails. Within one selection of group 100 the thread responses hold 3
  messages, then none, then 2: the initial scroll is made twice. And when both responses
  of a selection are empty it is not made at all.
\<close>

theorem initial_emitted_twice:
  "scrollRun 0 [3, 0, 2] = [Initial, NoAction, Initial] \<and>
   scrollCalls (threadUpdates [replicate 3 threadMsg, [], replicate 2 threadMsg]
      (threadLoaderEffect selected100)) = [Instant, Instant] \<and>
   scrollCalls (threadUpdates [[], []] (threadLoaderEffect selected100)) = []"
  by (simp add: classifyScroll_def selected100_def contact_onClick_def Let_def mounted_def
      loadContacts_def initialState_def threadLoaderEffect_def setMessages_def scrollEffect_def)

section \<open>The unread field of a contact and the unread map\<close>

text \<open>
  Claim C10, as the code has it. In a successful tick a contact that some message of the
  window matches gets, as its own \<open>unread\<close> field, the count that this one tick made for
  its key (0 when it counted none); a contact that no message of the window matches keeps
  the field it had. The contact list of the state is the reconciliation with these
  per-tick counts, while the map that the badge reads grows by them. After the two ticks
  of the last two lines the contact of group 100 carries 2 and its badge shows 3.
\<close>

theorem contact_unread_is_tick_count:
  "(filter (matchesContact c) w \<noteq> [] \<longrightarrow>
      unread (updateContact n w c) = Some (count_or0 (n (contactKey c)))) \<and>
   (filter (matchesContact c) w = [] \<longrightarrow> unread (updateContact n w c) = unread c) \<and>
   contacts (checkNewMessages cl (Inr w) now s) =
     reconcile (countUnread (viewedChats s) (cl_selectedContact cl)
                  (newMessagesOnly (cl_lastCheckedTime cl) w) Map.empty) w (contacts s) \<and>
   unreadCount (checkNewMessages cl (Inr w) now s) k =
     unreadCount s k +
     count_or0 (countUnread (viewedChats s) (cl_selectedContact cl)
                  (newMessagesOnly (cl_lastCheckedTime cl) w) Map.empty k) \<and>
   map unread (contacts (pollEffect [(Inr [groupMsg ''100'' 2000], 4000),
        (Inr [groupMsg ''100'' 5000, groupMsg ''100'' 2000], 7000)]
      (mounted [''100''] []))) = [Some 2] \<and>
   unreadCount (pollEffect [(Inr [groupMsg ''100'' 2000], 4000),
        (Inr [groupMsg ''100'' 5000, groupMsg ''100'' 2000], 7000)]
      (mounted [''100''] [])) ''group-100'' = 3"
proof -
  have a: "filter (matchesContact c) w \<noteq> [] \<longrightarrow>
      unread (updateContact n w c) = Some (count_or0 (n (contactKey c)))"
    by (simp add: updateContact_def split: list.splits)
  have b: "filter (matchesContact c) w = [] \<longrightarrow> unread (updateContact n w c) = unread c"
    by (simp add: updateContact_def)
  have c: "contacts (checkNewMessages cl (Inr w) now s) =
     reconcile (countUnread (viewedChats s) (cl_selectedContact cl)
                  (newMessagesOnly (cl_lastCheckedTime cl) w) Map.empty) w (contacts s)"
    by (simp add: checkNewMessages_def checkNewMessages_try_def Let_def)
  have d: "unreadCount (checkNewMessages cl (Inr w) now s) k =
     unreadCount s k +
     count_or0 (countUnread (viewedChats s) (cl_selectedContact cl)
                  (newMessagesOnly (cl_lastCheckedTime cl) w) Map.empty k)"
    by (simp add: checkNewMessages_def checkNewMessages_try_def Let_def unreadCount_def
        count_or0_merge)
  have e: "map unread (contacts (pollEffect [(Inr [groupMsg ''100'' 2000], 4000),
        (Inr [groupMsg ''100'' 5000, groupMsg ''100'' 2000], 7000)]
      (mounted [''100''] []))) = [Some 2]"
    by (simp add: poll_defs)
  have f: "unreadCount (pollEffect [(Inr [groupMsg ''100'' 2000], 4000),
        (Inr [groupMsg ''100'' 5000, groupMsg ''100'' 2000], 7000)]
      (mounted [''100''] [])) ''group-100'' = 3"
    by (simp add: poll_defs)
  show ?thesis using a b c d e f by blast
qed

theorem contact_unread_is_tick_count_witness:
  "filter (matchesContact (contact_of_group (dirGroup ''100''))) [groupMsg ''100'' 2000] \<noteq> [] \<and>
   unread (updateContact [''group-100'' \<mapsto> 1] [groupMsg ''100'' 2000]
      (contact_of_group (dirGroup ''100''))) = Some 1 \<and>
   unread (updateContact [''group-100'' \<mapsto> 1] []
      ((contact_of_group (dirGroup ''100''))\<lparr>unread := Some 7\<rparr>)) = Some 7"
proof -
  let ?c = "contact_of_group (dirGroup ''100'')"
  let ?n = "[''group-100'' \<mapsto> (1::nat)]"
  have m: "filter (matchesContact ?c) [groupMsg ''100'' 2000] \<noteq> []"
    by (simp add: matchesContact_def groupMsg_def contact_of_group_def dirGroup_def)
  have k: "contactKey ?c = ''group-100''"
    by (simp add: contactKey_def contact_of_group_def dirGroup_def)
  have one: "unread (updateContact ?n [groupMsg ''100'' 2000] ?c) = Some 1"
    using contact_unread_is_tick_count [where c = ?c and w = "[groupMsg ''100'' 2000]"
        and n = ?n, THEN conjunct1] m
    by (simp add: k)
  have kept: "unread (updateContact ?n [] (?c\<lparr>unread := Some 7\<rparr>)) = Some 7"
    using contact_unread_is_tick_count [where c = "?c\<lparr>unread := Some 7\<rparr>" and w = "[]"
        and n = ?n, THEN conjunct2, THEN conjunct1]
    by simp
  show ?thesis using m one kept by blast
qed

text \<open>
  Where the claim fails. Group 100 is counted once by a first tick. The window of the
  second tick holds only a message of group 200, which is not in the directory: the tick
  counts nothing for group 100, and the contact keeps its \<open>unread\<close> field of 1. Before
  the first tick the field is absent, not 0.
\<close>

theorem contact_unread_kept:
  "map unread (contacts (mounted [''100''] [])) = [None] \<and>
   map unread (contacts (pollEffect [(Inr [groupMsg ''100'' 2000], 4000)]
      (mounted [''100''] []))) = [Some 1] \<and>
   map unread (contacts (pollEffect [(Inr [groupMsg ''100'' 2000], 4000),
        (Inr [groupMsg ''200'' 5000], 7000)]
      (mounted [''100''] []))) = [Some 1] \<and>
   countUnread {} None (newMessagesOnly 1000 [groupMsg ''200'' 5000]) Map.empty ''group-100''
     = None"
  by (simp add: poll_defs)

end
